theory Spec2Isabelle
  imports Complex_Main "HOL-Library.Sublist"
begin

section \<open>The power-outages ETL task (\<^verbatim>\<open>src/task.ts\<close>)\<close>

text \<open>
  The task reads its configuration, builds the request URL, fetches the outage report,
  turns every outage of the report into a GeoJSON point feature and submits the
  collection. The embedding follows \<^verbatim>\<open>Task.control\<close> line by line. What the source
  takes from the JavaScript runtime (number parsing and printing, date parsing and
  printing, URL encoding) is a parameter of the model, collected in the record
  \<open>runtime\<close>; what it takes from the outside world (the HTTP response, the submission
  sink, the clock) is collected in the record \<open>world\<close>.
\<close>

subsection \<open>JavaScript values\<close>

text \<open>
  A JavaScript number: not-a-number, the two infinities, or a finite value. Every
  finite double is a rational, so \<open>Finite\<close> carries a \<open>rat\<close>; the two zeros are
  one value, which the comparisons of the source cannot tell apart.
\<close>

datatype number = NaN | NegInfinity | Finite rat | Infinity

definition isNaN :: "number \<Rightarrow> bool" where
  "isNaN n = (n = NaN)"

text \<open>The relational operator \<^verbatim>\<open><\<close> on numbers: false as soon as one side is NaN.\<close>

fun num_less :: "number \<Rightarrow> number \<Rightarrow> bool" where
  "num_less NaN _ = False"
| "num_less _ NaN = False"
| "num_less _ NegInfinity = False"
| "num_less NegInfinity _ = True"
| "num_less Infinity _ = False"
| "num_less (Finite a) (Finite b) = (a < b)"
| "num_less (Finite a) Infinity = True"

definition zero :: number where
  "zero = Finite 0"

text \<open>Truthiness of a string, and of an optional string (\<^verbatim>\<open>undefined\<close> is falsy).\<close>

definition truthy :: "string \<Rightarrow> bool" where
  "truthy s = (s \<noteq> [])"

definition truthy_opt :: "string option \<Rightarrow> bool" where
  "truthy_opt v = (case v of None \<Rightarrow> False | Some s \<Rightarrow> truthy s)"

text \<open>\<^verbatim>\<open>Array.prototype.join\<close> on an array of strings.\<close>

fun join :: "string \<Rightarrow> string list \<Rightarrow> string" where
  "join sep [] = []"
| "join sep [x] = x"
| "join sep (x # y # ys) = x @ sep @ join sep (y # ys)"

text \<open>
  The runtime functions the source calls. \<open>Date_parse\<close> is the time value (milliseconds
  since the epoch) of \<^verbatim>\<open>new Date(s)\<close>, \<open>None\<close> for an invalid date; \<open>toISOString\<close> and
  \<open>toLocaleString\<close> print a valid time value, the latter standing for
  \<^verbatim>\<open>toLocaleString('en-NZ', { timeZone: 'Pacific/Auckland' })\<close>; \<open>encode\<close> is the
  percent-encoding that \<^verbatim>\<open>URLSearchParams.toString\<close> applies to names and values.
\<close>

record runtime =
  Number :: "string \<Rightarrow> number"
  number_toString :: "number \<Rightarrow> string"
  Date_parse :: "string \<Rightarrow> int option"
  toISOString :: "int \<Rightarrow> string"
  toLocaleString :: "int \<Rightarrow> string"
  encode :: "string \<Rightarrow> string"

subsection \<open>Errors\<close>

text \<open>
  One constructor for each way \<^verbatim>\<open>control\<close> can throw: the two \<^verbatim>\<open>throw\<close> statements of the
  source, the \<^verbatim>\<open>RangeError\<close> that \<^verbatim>\<open>toISOString\<close> raises on an invalid date, and a
  rejection coming from \<^verbatim>\<open>fetch\<close>, \<^verbatim>\<open>res.json\<close> or \<^verbatim>\<open>submit\<close> with its message.
\<close>

datatype error =
    InvalidMinCustomers
  | FetchFailed nat string
  | InvalidTimeValue
  | Rejected string

definition status_text :: "runtime \<Rightarrow> nat \<Rightarrow> string" where
  "status_text rt n = number_toString rt (Finite (of_nat n))"

fun message :: "runtime \<Rightarrow> error \<Rightarrow> string" where
  "message rt InvalidMinCustomers = ''Invalid minimum customers value''"
| "message rt (FetchFailed st txt) = ''Failed to fetch data: '' @ status_text rt st @ '' '' @ txt"
| "message rt InvalidTimeValue = ''Invalid time value''"
| "message rt (Rejected m) = m"

subsection \<open>Dates\<close>

text \<open>\<^verbatim>\<open>new Date(t)\<close> for a number: the time value is clipped to the valid range.\<close>

definition new_Date :: "int \<Rightarrow> int option" where
  "new_Date t = (if \<bar>t\<bar> \<le> 8640000000000000 then Some t else None)"

definition Date_toISOString :: "runtime \<Rightarrow> int option \<Rightarrow> error + string" where
  "Date_toISOString rt d = (case d of None \<Rightarrow> Inl InvalidTimeValue | Some t \<Rightarrow> Inr (toISOString rt t))"

definition Date_toLocaleString :: "runtime \<Rightarrow> int option \<Rightarrow> string" where
  "Date_toLocaleString rt d = (case d of None \<Rightarrow> ''Invalid Date'' | Some t \<Rightarrow> toLocaleString rt t)"

subsection \<open>Data model\<close>

record Env =
  API_URL :: string
  Min_Customers :: string
  Utility_Filter :: "string option"
  Outage_Type :: "string option"

record utility =
  utility_name :: string
  utility_id :: string

record coordinates =
  latitude :: number
  longitude :: number

text \<open>
  The records follow the interfaces \<^verbatim>\<open>PowerOutage\<close> and \<^verbatim>\<open>PowerOutagesResponse\<close>: an
  optional field is an \<open>option\<close>. The arrays \<^verbatim>\<open>areas\<close> and \<^verbatim>\<open>streets\<close> are declared
  as always there, so the guards \<^verbatim>\<open>areas?.\<close> and \<^verbatim>\<open>streets &&\<close> of the source have no
  case of their own.
\<close>

record location =
  coordinates :: coordinates
  areas :: "string list"
  streets :: "string list"

record metadata =
  feeder :: "string option"
  lastUpdate :: "string option"
  aggregationType :: "string option"
  outageCount :: "number option"

record PowerOutage =
  outageId :: string
  utility :: utility
  region :: string
  regionCode :: string
  outageStart :: string
  estimatedRestoration :: "string option"
  cause :: string
  status :: string
  outageType :: "string option"
  customersAffected :: number
  crewStatus :: "string option"
  location :: location
  metadata :: "metadata option"

record summary =
  totalUtilities :: number
  totalOutages :: number
  totalCustomersAffected :: number

record utility_entry =
  entry_name :: string
  entry_id :: string
  entry_status :: string
  entry_outageCount :: number

record PowerOutagesResponse =
  version :: string
  timestamp :: string
  summary :: summary
  utilities :: "utility_entry list"
  outages :: "PowerOutage list"

record geometry =
  geometry_type :: string
  geometry_coordinates :: "number list"

record properties =
  callsign :: string
  cot_type :: string
  icon :: string
  time :: string
  start :: string
  stale :: string
  properties_metadata :: PowerOutage
  remarks :: string

record Feature =
  feature_id :: string
  feature_type :: string
  properties :: properties
  geometry :: geometry

record FeatureCollection =
  collection_type :: string
  features :: "Feature list"

record Response =
  ok :: bool
  response_status :: nat
  statusText :: string
  json :: "string + PowerOutagesResponse"

text \<open>
  The outside world of one run: \<open>fetch\<close> answers a URL with a response or rejects,
  \<open>submit\<close> accepts a collection or rejects, and \<open>Date_now i\<close> is what \<^verbatim>\<open>Date.now()\<close>
  returns during the \<open>i\<close>-th iteration of the loop over the outages.
\<close>

record world =
  fetch :: "string \<Rightarrow> string + Response"
  submit :: "FeatureCollection \<Rightarrow> string option"
  Date_now :: "nat \<Rightarrow> int"

datatype event =
    ConsoleLog string
  | ConsoleError string
  | Fetch string
  | Submit FeatureCollection

subsection \<open>Building the request URL (lines 127 to 147)\<close>

definition invalid_min :: "number \<Rightarrow> bool" where
  "invalid_min minCustomers = (isNaN minCustomers \<or> num_less minCustomers zero)"

definition build_params :: "runtime \<Rightarrow> Env \<Rightarrow> number \<Rightarrow> (string \<times> string) list" where
  "build_params rt env minCustomers =
     (if num_less zero minCustomers
      then [(''minCustomers'', number_toString rt minCustomers)] else []) @
     (case Utility_Filter env of
        None \<Rightarrow> []
      | Some u \<Rightarrow> if truthy u then [(''utility'', u)] else []) @
     (case Outage_Type env of
        None \<Rightarrow> []
      | Some t \<Rightarrow> if truthy t then [(''outageType'', t)] else [])"

definition params_toString :: "runtime \<Rightarrow> (string \<times> string) list \<Rightarrow> string" where
  "params_toString rt ps = join ''&'' (map (\<lambda>(k, v). encode rt k @ ''='' @ encode rt v) ps)"

definition build_url :: "runtime \<Rightarrow> Env \<Rightarrow> number \<Rightarrow> string" where
  "build_url rt env minCustomers =
     (let q = params_toString rt (build_params rt env minCustomers)
      in if truthy q then API_URL env @ ''?'' @ q else API_URL env)"

subsection \<open>One outage to one feature (lines 161 to 199)\<close>

definition ICON :: string where
  "ICON = ''bb4df0a6-ca8d-4ba8-bb9e-3deb97ff015e:Incidents/INC.04.PowerOutage''"

definition areas_text :: "PowerOutage \<Rightarrow> string" where
  "areas_text outage =
     (let s = join '', '' (areas (location outage)) in if truthy s then s else ''Unknown'')"

definition outageCount_text :: "runtime \<Rightarrow> metadata \<Rightarrow> string" where
  "outageCount_text rt m =
     (case outageCount m of None \<Rightarrow> ''undefined'' | Some n \<Rightarrow> number_toString rt n)"

definition remark_lines :: "runtime \<Rightarrow> PowerOutage \<Rightarrow> string list" where
  "remark_lines rt outage =
     [''Utility: '' @ utility_name (utility outage),
      ''Customers Affected: '' @ number_toString rt (customersAffected outage),
      ''Status: '' @ status outage,
      ''Cause: '' @ cause outage,
      ''Region: '' @ region outage,
      ''Areas: '' @ areas_text outage] @
     (if streets (location outage) \<noteq> []
      then [''Streets: '' @ join '', '' (streets (location outage))] else []) @
     [''Outage Start: '' @ Date_toLocaleString rt (Date_parse rt (outageStart outage)) @ '' NZT''] @
     (case estimatedRestoration outage of
        None \<Rightarrow> []
      | Some er \<Rightarrow>
          if truthy er
          then [''Estimated Restoration: '' @ Date_toLocaleString rt (Date_parse rt er) @ '' NZT'']
          else []) @
     (case outageType outage of
        None \<Rightarrow> []
      | Some ot \<Rightarrow> if truthy ot then [''Type: '' @ ot] else []) @
     (case crewStatus outage of
        None \<Rightarrow> []
      | Some cs \<Rightarrow> if truthy cs then [''Crew Status: '' @ cs] else []) @
     (case metadata outage of
        None \<Rightarrow> []
      | Some m \<Rightarrow>
          (case feeder m of
             None \<Rightarrow> []
           | Some fd \<Rightarrow> if truthy fd then [''Feeder: '' @ fd] else [])) @
     (case metadata outage of
        None \<Rightarrow> []
      | Some m \<Rightarrow>
          if truthy_opt (aggregationType m)
          then [''Aggregated: '' @ outageCount_text rt m @ '' outages''] else [])"

definition callsign_of :: "PowerOutage \<Rightarrow> string" where
  "callsign_of outage =
     utility_name (utility outage) @ '' - '' @
     (case areas (location outage) of
        [] \<Rightarrow> region outage
      | a # _ \<Rightarrow> if truthy a then a else region outage)"

definition stale_of :: "runtime \<Rightarrow> int \<Rightarrow> PowerOutage \<Rightarrow> error + string" where
  "stale_of rt now outage =
     (case estimatedRestoration outage of
        None \<Rightarrow> Date_toISOString rt (new_Date (now + 60 * 60 * 1000))
      | Some er \<Rightarrow>
          if truthy er then Date_toISOString rt (Date_parse rt er)
          else Date_toISOString rt (new_Date (now + 60 * 60 * 1000)))"

text \<open>
  The object literal is evaluated field by field; the first \<^verbatim>\<open>toISOString\<close> on an
  invalid date throws and no feature is pushed.
\<close>

definition to_feature :: "runtime \<Rightarrow> int \<Rightarrow> PowerOutage \<Rightarrow> error + Feature" where
  "to_feature rt now outage =
     (let lon = longitude (coordinates (location outage));
          lat = latitude (coordinates (location outage));
          lines = remark_lines rt outage
      in case Date_toISOString rt (Date_parse rt (outageStart outage)) of
           Inl e \<Rightarrow> Inl e
         | Inr t \<Rightarrow>
             (case stale_of rt now outage of
                Inl e \<Rightarrow> Inl e
              | Inr st \<Rightarrow>
                  Inr \<lparr> feature_id = ''poweroutage-'' @ outageId outage,
                        feature_type = ''Feature'',
                        properties = \<lparr> callsign = callsign_of outage,
                                       cot_type = ''a-f-X-i'',
                                       icon = ICON,
                                       time = t,
                                       start = t,
                                       stale = st,
                                       properties_metadata = outage,
                                       remarks = join [CHR 0x0A] lines \<rparr>,
                        geometry = \<lparr> geometry_type = ''Point'',
                                     geometry_coordinates = [lon, lat] \<rparr> \<rparr>))"

subsection \<open>The loop over the outages (lines 158 to 200)\<close>

text \<open>
  \<open>acc\<close> is the array \<^verbatim>\<open>features\<close>; one feature is pushed per iteration, so its length
  is the number of the iteration.
\<close>

fun transform :: "runtime \<Rightarrow> (nat \<Rightarrow> int) \<Rightarrow> Feature list \<Rightarrow> PowerOutage list \<Rightarrow> error + Feature list" where
  "transform rt clock acc [] = Inr acc"
| "transform rt clock acc (outage # rest) =
     (case to_feature rt (clock (length acc)) outage of
        Inl e \<Rightarrow> Inl e
      | Inr f \<Rightarrow> transform rt clock (acc @ [f]) rest)"

subsection \<open>The run (lines 123 to 212)\<close>

text \<open>The \<^verbatim>\<open>catch\<close> block: log the message, throw the error again.\<close>

definition fail :: "runtime \<Rightarrow> event list \<Rightarrow> error \<Rightarrow> event list \<times> (error + unit)" where
  "fail rt tr e = (tr @ [ConsoleError (''Error in ETL process: '' @ message rt e)], Inl e)"

definition fetched_text :: "runtime \<Rightarrow> Feature list \<Rightarrow> PowerOutagesResponse \<Rightarrow> string" where
  "fetched_text rt fs body =
     ''ok - fetched '' @ number_toString rt (Finite (of_nat (length fs))) @
     '' power outages ('' @ number_toString rt (totalCustomersAffected (summary body)) @
     '' customers affected)''"

text \<open>
  A run returns the events it caused, in order, and either the error it threw or
  nothing. The run starts from the loaded configuration: \<^verbatim>\<open>this.env(Env)\<close> of line 125
  belongs to the hosting framework.
\<close>

definition control :: "runtime \<Rightarrow> world \<Rightarrow> Env \<Rightarrow> event list \<times> (error + unit)" where
  "control rt w env =
     (let minCustomers = Number rt (Min_Customers env)
      in if invalid_min minCustomers then fail rt [] InvalidMinCustomers
         else
           (let url = build_url rt env minCustomers;
                tr = [ConsoleLog (''ok - Fetching power outages from '' @ url), Fetch url]
            in (case fetch w url of
                  Inl m \<Rightarrow> fail rt tr (Rejected m)
                | Inr res \<Rightarrow>
                    if \<not> ok res
                    then fail rt tr (FetchFailed (response_status res) (statusText res))
                    else
                      (case json res of
                         Inl m \<Rightarrow> fail rt tr (Rejected m)
                       | Inr body \<Rightarrow>
                           (case transform rt (Date_now w) [] (outages body) of
                              Inl e \<Rightarrow> fail rt tr e
                            | Inr fs \<Rightarrow>
                                (let fc = \<lparr> collection_type = ''FeatureCollection'', features = fs \<rparr>;
                                     tr' = tr @ [ConsoleLog (fetched_text rt fs body), Submit fc]
                                 in (case submit w fc of
                                       Some m \<Rightarrow> fail rt tr' (Rejected m)
                                     | None \<Rightarrow> (tr', Inr ()))))))))"

text \<open>What a trace shows of the network and of the sink.\<close>

fun fetched :: "event list \<Rightarrow> string list" where
  "fetched [] = []"
| "fetched (Fetch u # es) = u # fetched es"
| "fetched (_ # es) = fetched es"

fun submitted :: "event list \<Rightarrow> FeatureCollection list" where
  "submitted [] = []"
| "submitted (Submit fc # es) = fc # submitted es"
| "submitted (_ # es) = submitted es"

subsection \<open>Example data\<close>

text \<open>
  A runtime for the examples: it agrees with JavaScript on the strings, numbers and
  instants the examples below use (the local time is New Zealand daylight time,
  thirteen hours ahead of UTC), and nothing is claimed about it elsewhere.
\<close>

definition sample_runtime :: runtime where
  "sample_runtime =
     \<lparr> Number = (\<lambda>s. if s = ''0'' then Finite 0 else if s = ''100'' then Finite 100
                       else if s = ''-5'' then Finite (- 5) else NaN),
       number_toString = (\<lambda>n. if n = Finite 1 then ''1'' else if n = Finite 3 then ''3''
                       else if n = Finite 5 then ''5'' else if n = Finite 100 then ''100''
                       else if n = Finite 500 then ''500'' else if n = Finite 503 then ''503''
                       else ''0''),
       Date_parse = (\<lambda>s. if s = ''2025-01-15T10:00:00Z'' then Some 1736935200000
                       else if s = ''2025-01-15T12:00:00Z'' then Some 1736942400000 else None),
       toISOString = (\<lambda>t. if t = 1736935200000 then ''2025-01-15T10:00:00.000Z''
                       else if t = 1736938800000 then ''2025-01-15T11:00:00.000Z''
                       else if t = 1736942400000 then ''2025-01-15T12:00:00.000Z'' else []),
       toLocaleString = (\<lambda>t. if t = 1736935200000 then ''15/01/2025, 11:00:00 pm''
                       else if t = 1736942400000 then ''16/01/2025, 1:00:00 am'' else []),
       encode = (\<lambda>s. s) \<rparr>"

text \<open>An outage with every optional field present and not empty.\<close>

definition full_outage :: PowerOutage where
  "full_outage =
     \<lparr> outageId = ''ORION-1'',
       utility = \<lparr> utility_name = ''Orion Group'', utility_id = ''ORION_NZ'' \<rparr>,
       region = ''Canterbury'',
       regionCode = ''NZ-CAN'',
       outageStart = ''2025-01-15T10:00:00Z'',
       estimatedRestoration = Some ''2025-01-15T12:00:00Z'',
       cause = ''Fault'',
       status = ''active'',
       outageType = Some ''unplanned'',
       customersAffected = Finite 500,
       crewStatus = Some ''En route'',
       location = \<lparr> coordinates = \<lparr> latitude = Finite (- 87 / 2), longitude = Finite (345 / 2) \<rparr>,
                    areas = [''Ponsonby''],
                    streets = [''High St'', ''Low St''] \<rparr>,
       metadata = Some \<lparr> feeder = Some ''F12'', lastUpdate = None,
                         aggregationType = Some ''feeder'', outageCount = Some (Finite 3) \<rparr> \<rparr>"

definition full_lines :: "string list" where
  "full_lines =
     [''Utility: Orion Group'', ''Customers Affected: 500'', ''Status: active'',
      ''Cause: Fault'', ''Region: Canterbury'', ''Areas: Ponsonby'',
      ''Streets: High St, Low St'', ''Outage Start: 15/01/2025, 11:00:00 pm NZT'',
      ''Estimated Restoration: 16/01/2025, 1:00:00 am NZT'', ''Type: unplanned'',
      ''Crew Status: En route'', ''Feeder: F12'', ''Aggregated: 3 outages'']"

definition feature_of :: "PowerOutage \<Rightarrow> string \<Rightarrow> string \<Rightarrow> string \<Rightarrow> string list \<Rightarrow> Feature" where
  "feature_of outage cs t st lines =
     \<lparr> feature_id = ''poweroutage-'' @ outageId outage,
       feature_type = ''Feature'',
       properties = \<lparr> callsign = cs, cot_type = ''a-f-X-i'', icon = ICON,
                      time = t, start = t, stale = st, properties_metadata = outage,
                      remarks = join [CHR 0x0A] lines \<rparr>,
       geometry = \<lparr> geometry_type = ''Point'',
                    geometry_coordinates = [longitude (coordinates (location outage)),
                                            latitude (coordinates (location outage))] \<rparr> \<rparr>"

definition full_feature :: Feature where
  "full_feature =
     feature_of full_outage ''Orion Group - Ponsonby'' ''2025-01-15T10:00:00.000Z''
       ''2025-01-15T12:00:00.000Z'' full_lines"

text \<open>The full outage with every optional string present and empty.\<close>

definition blank_outage :: PowerOutage where
  "blank_outage =
     full_outage \<lparr> estimatedRestoration := Some [], outageType := Some [],
                   crewStatus := Some [],
                   metadata := Some \<lparr> feeder = Some [], lastUpdate = None,
                                      aggregationType = Some [],
                                      outageCount = Some (Finite 3) \<rparr> \<rparr>"

text \<open>The full outage with an estimated restoration that is the empty string.\<close>

definition blank_restoration_outage :: PowerOutage where
  "blank_restoration_outage = full_outage \<lparr> estimatedRestoration := Some [] \<rparr>"

text \<open>The full outage where the first affected area is the empty string.\<close>

definition blank_area_outage :: PowerOutage where
  "blank_area_outage =
     full_outage \<lparr> location := (location full_outage) \<lparr> areas := [[], ''Ponsonby''] \<rparr> \<rparr>"

text \<open>An outage of five customers, with no optional field, no area and no street.\<close>

definition small_outage :: PowerOutage where
  "small_outage =
     \<lparr> outageId = ''PCO-7'',
       utility = \<lparr> utility_name = ''Powerco'', utility_id = ''POWERCO_NZ'' \<rparr>,
       region = ''Taranaki'',
       regionCode = ''NZ-TKI'',
       outageStart = ''2025-01-15T10:00:00Z'',
       estimatedRestoration = None,
       cause = ''Unknown'',
       status = ''active'',
       outageType = None,
       customersAffected = Finite 5,
       crewStatus = None,
       location = \<lparr> coordinates = \<lparr> latitude = Finite (- 39), longitude = Finite 174 \<rparr>,
                    areas = [], streets = [] \<rparr>,
       metadata = None \<rparr>"

definition small_lines :: "string list" where
  "small_lines =
     [''Utility: Powerco'', ''Customers Affected: 5'', ''Status: active'', ''Cause: Unknown'',
      ''Region: Taranaki'', ''Areas: Unknown'', ''Outage Start: 15/01/2025, 11:00:00 pm NZT'']"

definition small_feature :: Feature where
  "small_feature =
     feature_of small_outage ''Powerco - Taranaki'' ''2025-01-15T10:00:00.000Z''
       ''2025-01-15T11:00:00.000Z'' small_lines"

definition small_report :: PowerOutagesResponse where
  "small_report =
     \<lparr> version = ''1.0'',
       timestamp = ''2025-01-15T10:05:00Z'',
       summary = \<lparr> totalUtilities = Finite 1, totalOutages = Finite 1,
                   totalCustomersAffected = Finite 5 \<rparr>,
       utilities = [\<lparr> entry_name = ''Powerco'', entry_id = ''POWERCO_NZ'',
                      entry_status = ''ok'', entry_outageCount = Finite 1 \<rparr>],
       outages = [small_outage] \<rparr>"

text \<open>A world whose API answers 200 with the small report, and one whose API answers 503.\<close>

definition world_ok :: world where
  "world_ok =
     \<lparr> fetch = (\<lambda>url. Inr \<lparr> ok = True, response_status = 200, statusText = ''OK'',
                              json = Inr small_report \<rparr>),
       submit = (\<lambda>fc. None),
       Date_now = (\<lambda>i. 1736935200000) \<rparr>"

definition world_503 :: world where
  "world_503 =
     \<lparr> fetch = (\<lambda>url. Inr \<lparr> ok = False, response_status = 503,
                              statusText = ''Service Unavailable'',
                              json = Inl ''Unexpected end of JSON input'' \<rparr>),
       submit = (\<lambda>fc. None),
       Date_now = (\<lambda>i. 1736935200000) \<rparr>"

definition env_default :: Env where
  "env_default =
     \<lparr> API_URL = ''https://utils.tak.nz/power-outages/outages'', Min_Customers = ''0'',
       Utility_Filter = None, Outage_Type = None \<rparr>"

definition env_filtered :: Env where
  "env_filtered =
     env_default \<lparr> Min_Customers := ''100'', Utility_Filter := Some ''ORION_NZ'',
                   Outage_Type := Some ''unplanned'' \<rparr>"

definition env_negative :: Env where
  "env_negative = env_default \<lparr> Min_Customers := ''-5'' \<rparr>"

definition env_blank_filter :: Env where
  "env_blank_filter = env_default \<lparr> Utility_Filter := Some [] \<rparr>"

section \<open>Properties of the task\<close>

subsection \<open>Auxiliary facts\<close>

lemmas model_defs =
  isNaN_def zero_def truthy_def truthy_opt_def status_text_def new_Date_def
  Date_toISOString_def Date_toLocaleString_def invalid_min_def build_params_def
  params_toString_def build_url_def areas_text_def outageCount_text_def remark_lines_def
  callsign_of_def stale_of_def to_feature_def fail_def fetched_text_def control_def Let_def

lemmas sample_defs =
  sample_runtime_def full_outage_def full_lines_def feature_of_def full_feature_def
  blank_restoration_outage_def blank_area_outage_def blank_outage_def small_outage_def
  small_lines_def small_feature_def small_report_def world_ok_def world_503_def
  env_default_def env_filtered_def env_negative_def env_blank_filter_def

lemma join_eq_Nil:
  "join sep xs = [] \<longleftrightarrow> (\<forall>x\<in>set xs. x = []) \<and> (sep = [] \<or> length xs \<le> 1)"
  by (induction sep xs rule: join.induct) auto

lemma params_toString_Nil: "params_toString rt ps = [] \<longleftrightarrow> ps = []"
  by (cases ps) (auto simp: params_toString_def join_eq_Nil split: prod.splits)

text \<open>A feature that is pushed has exactly the fields of the object literal.\<close>

lemma to_feature_Inr:
  assumes "to_feature rt now outage = Inr f"
  obtains t st where
    "Date_toISOString rt (Date_parse rt (outageStart outage)) = Inr t"
    "stale_of rt now outage = Inr st"
    "f = \<lparr> feature_id = ''poweroutage-'' @ outageId outage,
           feature_type = ''Feature'',
           properties = \<lparr> callsign = callsign_of outage, cot_type = ''a-f-X-i'', icon = ICON,
                          time = t, start = t, stale = st, properties_metadata = outage,
                          remarks = join [CHR 0x0A] (remark_lines rt outage) \<rparr>,
           geometry = \<lparr> geometry_type = ''Point'',
                        geometry_coordinates = [longitude (coordinates (location outage)),
                                                latitude (coordinates (location outage))] \<rparr> \<rparr>"
  using assms unfolding to_feature_def Let_def
  by (auto split: sum.splits)

text \<open>The only error of the loop is the invalid time value.\<close>

lemma to_feature_Inl: "to_feature rt now outage = Inl e \<Longrightarrow> e = InvalidTimeValue"
  unfolding to_feature_def stale_of_def Date_toISOString_def Let_def
  by (auto split: sum.splits option.splits if_splits)

lemma transform_Inl: "transform rt clock acc os = Inl e \<Longrightarrow> e = InvalidTimeValue"
  by (induction os arbitrary: acc) (auto split: sum.splits dest: to_feature_Inl)

text \<open>The loop pushes one feature per outage, in order, each carrying its outage.\<close>

lemma transform_metadata:
  "transform rt clock acc os = Inr fs \<Longrightarrow>
   map (properties_metadata \<circ> properties) fs = map (properties_metadata \<circ> properties) acc @ os"
proof (induction os arbitrary: acc)
  case Nil
  then show ?case by simp
next
  case (Cons outage rest)
  from Cons.prems obtain f where f: "to_feature rt (clock (length acc)) outage = Inr f"
    and rest: "transform rt clock (acc @ [f]) rest = Inr fs"
    by (auto split: sum.splits)
  from f have "properties_metadata (properties f) = outage"
    by (elim to_feature_Inr) simp
  with Cons.IH [OF rest] show ?case by simp
qed

text \<open>The example runs, evaluated.\<close>

lemma to_feature_full: "to_feature sample_runtime 1736935200000 full_outage = Inr full_feature"
  by (simp add: model_defs sample_defs)

lemma to_feature_small: "to_feature sample_runtime 1736935200000 small_outage = Inr small_feature"
  by (simp add: model_defs sample_defs)

lemma control_ok_filtered:
  "control sample_runtime world_ok env_filtered =
     ([ConsoleLog ''ok - Fetching power outages from https://utils.tak.nz/power-outages/outages?minCustomers=100&utility=ORION_NZ&outageType=unplanned'',
       Fetch ''https://utils.tak.nz/power-outages/outages?minCustomers=100&utility=ORION_NZ&outageType=unplanned'',
       ConsoleLog ''ok - fetched 1 power outages (5 customers affected)'',
       Submit \<lparr> collection_type = ''FeatureCollection'', features = [small_feature] \<rparr>],
      Inr ())"
  by (simp add: model_defs sample_defs)

lemma control_ok_default:
  "control sample_runtime world_ok env_default =
     ([ConsoleLog ''ok - Fetching power outages from https://utils.tak.nz/power-outages/outages'',
       Fetch ''https://utils.tak.nz/power-outages/outages'',
       ConsoleLog ''ok - fetched 1 power outages (5 customers affected)'',
       Submit \<lparr> collection_type = ''FeatureCollection'', features = [small_feature] \<rparr>],
      Inr ())"
  by (simp add: model_defs sample_defs)

lemma control_503_default:
  "control sample_runtime world_503 env_default =
     ([ConsoleLog ''ok - Fetching power outages from https://utils.tak.nz/power-outages/outages'',
       Fetch ''https://utils.tak.nz/power-outages/outages'',
       ConsoleError ''Error in ETL process: Failed to fetch data: 503 Service Unavailable''],
      Inl (FetchFailed 503 ''Service Unavailable''))"
  by (simp add: model_defs sample_defs)

lemma control_negative:
  "control sample_runtime world_ok env_negative =
     ([ConsoleError ''Error in ETL process: Invalid minimum customers value''],
      Inl InvalidMinCustomers)"
  by (simp add: model_defs sample_defs)

subsection \<open>The feature identifier\<close>

text \<open>
  Claim C7. The identifier of an emitted feature is \<^verbatim>\<open>poweroutage-\<close> followed by the
  outage's \<^verbatim>\<open>outageId\<close>, and a second run on the same record, whatever its runtime and
  clock, emits the same identifier.
\<close>

theorem feature_id_stable:
  assumes "to_feature rt now outage = Inr f" and "to_feature rt' now' outage = Inr f'"
  shows "feature_id f = ''poweroutage-'' @ outageId outage \<and> feature_id f' = feature_id f"
  using assms by (elim to_feature_Inr) simp

text \<open>The full outage, run twice at the same instant.\<close>

theorem feature_id_stable_witness:
  "to_feature sample_runtime 1736935200000 full_outage = Inr full_feature \<and>
   feature_id full_feature = ''poweroutage-ORION-1''"
proof -
  have run: "to_feature sample_runtime 1736935200000 full_outage = Inr full_feature"
    by (rule to_feature_full)
  from feature_id_stable [OF run run]
  have "feature_id full_feature = ''poweroutage-'' @ outageId full_outage" by simp
  with run show ?thesis by (simp add: full_outage_def)
qed

subsection \<open>The embedded record\<close>

text \<open>
  Claim C9. The metadata payload of an emitted feature is the outage record it was
  built from, so every field of the record is read back unchanged from the feature.
\<close>

theorem metadata_round_trip:
  assumes "to_feature rt now outage = Inr f"
  shows "properties_metadata (properties f) = outage"
  using assms by (elim to_feature_Inr) simp

theorem metadata_round_trip_witness:
  "to_feature sample_runtime 1736935200000 small_outage = Inr small_feature \<and>
   properties_metadata (properties small_feature) = small_outage"
  using to_feature_small metadata_round_trip [OF to_feature_small] by simp

subsection \<open>The remarks\<close>

text \<open>
  Claim C1, as the code has it. When the estimated restoration, the outage type, the crew
  status, the feeder and the aggregation type are all present and not empty, and there is
  at least one street, the remarks string is the join, with a single newline, of exactly
  thirteen lines in this order: Utility, Customers Affected, Status, Cause, Region, Areas,
  Streets, Outage Start, Estimated Restoration, Type, Crew Status, Feeder, Aggregated.
\<close>

theorem remarks_all_optional_fields:
  assumes "to_feature rt now outage = Inr f"
    and "estimatedRestoration outage = Some er" and "truthy er"
    and "outageType outage = Some ot" and "truthy ot"
    and "crewStatus outage = Some cs" and "truthy cs"
    and "metadata outage = Some m"
    and "feeder m = Some fd" and "truthy fd"
    and "aggregationType m = Some ag" and "truthy ag"
    and "streets (location outage) \<noteq> []"
  shows "remarks (properties f) = join [CHR 0x0A]
     [''Utility: '' @ utility_name (utility outage),
      ''Customers Affected: '' @ number_toString rt (customersAffected outage),
      ''Status: '' @ status outage,
      ''Cause: '' @ cause outage,
      ''Region: '' @ region outage,
      ''Areas: '' @ areas_text outage,
      ''Streets: '' @ join '', '' (streets (location outage)),
      ''Outage Start: '' @ Date_toLocaleString rt (Date_parse rt (outageStart outage)) @ '' NZT'',
      ''Estimated Restoration: '' @ Date_toLocaleString rt (Date_parse rt er) @ '' NZT'',
      ''Type: '' @ ot,
      ''Crew Status: '' @ cs,
      ''Feeder: '' @ fd,
      ''Aggregated: '' @ outageCount_text rt m @ '' outages'']
    \<and> length (remark_lines rt outage) = 13"
proof -
  have lines: "remark_lines rt outage =
     [''Utility: '' @ utility_name (utility outage),
      ''Customers Affected: '' @ number_toString rt (customersAffected outage),
      ''Status: '' @ status outage,
      ''Cause: '' @ cause outage,
      ''Region: '' @ region outage,
      ''Areas: '' @ areas_text outage,
      ''Streets: '' @ join '', '' (streets (location outage)),
      ''Outage Start: '' @ Date_toLocaleString rt (Date_parse rt (outageStart outage)) @ '' NZT'',
      ''Estimated Restoration: '' @ Date_toLocaleString rt (Date_parse rt er) @ '' NZT'',
      ''Type: '' @ ot,
      ''Crew Status: '' @ cs,
      ''Feeder: '' @ fd,
      ''Aggregated: '' @ outageCount_text rt m @ '' outages'']"
    using assms(2-) by (simp add: remark_lines_def truthy_opt_def)
  from assms(1) have "remarks (properties f) = join [CHR 0x0A] (remark_lines rt outage)"
    by (elim to_feature_Inr) simp
  with lines show ?thesis by simp
qed

text \<open>The full outage: its thirteen lines, joined.\<close>

theorem remarks_all_optional_fields_witness:
  "to_feature sample_runtime 1736935200000 full_outage = Inr full_feature \<and>
   estimatedRestoration full_outage = Some ''2025-01-15T12:00:00Z'' \<and>
   outageType full_outage = Some ''unplanned'' \<and>
   crewStatus full_outage = Some ''En route'' \<and>
   map_option feeder (metadata full_outage) = Some (Some ''F12'') \<and>
   map_option aggregationType (metadata full_outage) = Some (Some ''feeder'') \<and>
   streets (location full_outage) = [''High St'', ''Low St''] \<and>
   remarks (properties full_feature) = join [CHR 0x0A] full_lines \<and>
   length (remark_lines sample_runtime full_outage) = 13"
proof -
  have run: "to_feature sample_runtime 1736935200000 full_outage = Inr full_feature"
    by (rule to_feature_full)
  have present:
    "estimatedRestoration full_outage = Some ''2025-01-15T12:00:00Z''"
    "truthy ''2025-01-15T12:00:00Z''"
    "outageType full_outage = Some ''unplanned''"
    "truthy ''unplanned''"
    "crewStatus full_outage = Some ''En route''"
    "truthy ''En route''"
    "metadata full_outage =
       Some \<lparr> feeder = Some ''F12'', lastUpdate = None, aggregationType = Some ''feeder'',
              outageCount = Some (Finite 3) \<rparr>"
    "feeder \<lparr> feeder = Some ''F12'', lastUpdate = None, aggregationType = Some ''feeder'',
             outageCount = Some (Finite 3) \<rparr> = Some ''F12''"
    "truthy ''F12''"
    "aggregationType \<lparr> feeder = Some ''F12'', lastUpdate = None,
                      aggregationType = Some ''feeder'', outageCount = Some (Finite 3) \<rparr> =
       Some ''feeder''"
    "truthy ''feeder''"
    "streets (location full_outage) \<noteq> []"
    by (simp_all add: full_outage_def truthy_def)
  from remarks_all_optional_fields [OF run present]
  have "length (remark_lines sample_runtime full_outage) = 13" by simp
  moreover have "remarks (properties full_feature) = join [CHR 0x0A] full_lines"
    by (simp add: full_feature_def feature_of_def)
  ultimately show ?thesis using run by (simp add: full_outage_def)
qed

text \<open>
  The claim as written counts twelve lines for every record whose optional fields are
  present. The full outage has every optional field present and two streets, and its
  remarks are thirteen lines. The blank outage has every optional field present too, each
  string empty, and its remarks are eight lines.
\<close>

theorem remarks_twelve_lines_counterexample:
  "estimatedRestoration full_outage \<noteq> None \<and> outageType full_outage \<noteq> None \<and>
   crewStatus full_outage \<noteq> None \<and>
   map_option feeder (metadata full_outage) = Some (Some ''F12'') \<and>
   map_option aggregationType (metadata full_outage) = Some (Some ''feeder'') \<and>
   streets (location full_outage) \<noteq> [] \<and>
   to_feature sample_runtime 1736935200000 full_outage = Inr full_feature \<and>
   remarks (properties full_feature) = join [CHR 0x0A] full_lines \<and>
   length full_lines = 13 \<and>
   length (remark_lines sample_runtime full_outage) \<noteq> 12 \<and>
   estimatedRestoration blank_outage \<noteq> None \<and> outageType blank_outage \<noteq> None \<and>
   crewStatus blank_outage \<noteq> None \<and>
   map_option feeder (metadata blank_outage) = Some (Some []) \<and>
   map_option aggregationType (metadata blank_outage) = Some (Some []) \<and>
   streets (location blank_outage) \<noteq> [] \<and>
   length (remark_lines sample_runtime blank_outage) = 8"
  using to_feature_full
  by (simp add: full_outage_def blank_outage_def full_lines_def full_feature_def feature_of_def
        remark_lines_def truthy_def truthy_opt_def)

subsection \<open>The staleness instant\<close>

text \<open>
  Claim C3, as the code has it. In an emitted feature, \<^verbatim>\<open>stale\<close> is the ISO form of the
  instant parsed from the estimated restoration when that field is present and not
  empty, and the ISO form of the clock reading plus 3,600,000 milliseconds when the field
  is absent.
\<close>

theorem stale_from_restoration_or_default:
  assumes "to_feature rt now outage = Inr f"
  shows "(\<forall>er. estimatedRestoration outage = Some er \<and> truthy er \<longrightarrow>
            (\<exists>t. Date_parse rt er = Some t \<and> stale (properties f) = toISOString rt t)) \<and>
         (estimatedRestoration outage = None \<longrightarrow>
            stale (properties f) = toISOString rt (now + 3600000))"
  using assms
  by (elim to_feature_Inr)
     (auto simp: stale_of_def Date_toISOString_def new_Date_def split: option.splits if_splits)

text \<open>The full outage has an estimate, the small one has none.\<close>

theorem stale_from_restoration_or_default_witness:
  "to_feature sample_runtime 1736935200000 full_outage = Inr full_feature \<and>
   estimatedRestoration full_outage = Some ''2025-01-15T12:00:00Z'' \<and>
   Date_parse sample_runtime ''2025-01-15T12:00:00Z'' = Some 1736942400000 \<and>
   stale (properties full_feature) = toISOString sample_runtime 1736942400000 \<and>
   to_feature sample_runtime 1736935200000 small_outage = Inr small_feature \<and>
   estimatedRestoration small_outage = None \<and>
   stale (properties small_feature) = toISOString sample_runtime (1736935200000 + 3600000)"
proof -
  have present: "estimatedRestoration full_outage = Some ''2025-01-15T12:00:00Z'' \<and>
      truthy ''2025-01-15T12:00:00Z''"
    by (simp add: full_outage_def truthy_def)
  have parsed: "Date_parse sample_runtime ''2025-01-15T12:00:00Z'' = Some 1736942400000"
    by (simp add: sample_runtime_def)
  from stale_from_restoration_or_default [OF to_feature_full] present
  obtain t where "Date_parse sample_runtime ''2025-01-15T12:00:00Z'' = Some t"
    and "stale (properties full_feature) = toISOString sample_runtime t"
    by blast
  with parsed have full: "stale (properties full_feature) = toISOString sample_runtime 1736942400000"
    by simp
  have absent: "estimatedRestoration small_outage = None"
    by (simp add: small_outage_def)
  with stale_from_restoration_or_default [OF to_feature_small]
  have small: "stale (properties small_feature) =
      toISOString sample_runtime (1736935200000 + 3600000)"
    by simp
  from present parsed full absent small to_feature_full to_feature_small
  show ?thesis by simp
qed

text \<open>
  The claim as written takes every present estimate as the source of \<^verbatim>\<open>stale\<close>. An
  estimate that is the empty string is present, parses to no instant, and the feature is
  stale one hour after the clock reading.
\<close>

theorem stale_present_counterexample:
  "estimatedRestoration blank_restoration_outage = Some [] \<and>
   Date_parse sample_runtime [] = None \<and>
   map_sum id (stale \<circ> properties)
     (to_feature sample_runtime 1736935200000 blank_restoration_outage) =
     Inr (toISOString sample_runtime (1736935200000 + 3600000))"
  by (simp add: model_defs sample_defs)

subsection \<open>The callsign\<close>

text \<open>
  Claim C8, as the code has it. The callsign is the utility name, then \<^verbatim>\<open> - \<close>, then the
  first area when there is one and it is not the empty string, and the region otherwise.
\<close>

theorem callsign_first_area_or_region:
  assumes "to_feature rt now outage = Inr f"
  shows "callsign (properties f) =
           utility_name (utility outage) @ '' - '' @
           (if areas (location outage) \<noteq> [] \<and> hd (areas (location outage)) \<noteq> []
            then hd (areas (location outage)) else region outage)"
  using assms
  by (elim to_feature_Inr) (auto simp: callsign_of_def truthy_def split: list.splits)

text \<open>The full outage has the area Ponsonby, the small one has no area.\<close>

theorem callsign_first_area_or_region_witness:
  "to_feature sample_runtime 1736935200000 full_outage = Inr full_feature \<and>
   callsign (properties full_feature) = ''Orion Group - Ponsonby'' \<and>
   to_feature sample_runtime 1736935200000 small_outage = Inr small_feature \<and>
   callsign (properties small_feature) = ''Powerco - Taranaki''"
  using to_feature_full callsign_first_area_or_region [OF to_feature_full]
    to_feature_small callsign_first_area_or_region [OF to_feature_small]
  by (simp add: full_outage_def small_outage_def)

text \<open>
  The claim as written takes the first area whenever there is one. Here the areas are
  the empty string and Ponsonby, and the callsign ends with the region.
\<close>

theorem callsign_first_area_counterexample:
  "areas (location blank_area_outage) = [[], ''Ponsonby''] \<and>
   region blank_area_outage = ''Canterbury'' \<and>
   map_sum id (callsign \<circ> properties)
     (to_feature sample_runtime 1736935200000 blank_area_outage) =
     Inr ''Orion Group - Canterbury'' \<and>
   ''Orion Group - Canterbury'' \<noteq>
     utility_name (utility blank_area_outage) @ '' - '' @ hd (areas (location blank_area_outage))"
  by (simp add: model_defs sample_defs)

subsection \<open>The configuration check\<close>

text \<open>
  Claim C4. When \<^verbatim>\<open>Min Customers\<close> converts to NaN or to a negative number, the run
  throws the configuration error at once: the only event is the error log, so nothing
  is fetched and nothing is submitted. For every other value the run does not throw the
  configuration error.
\<close>

theorem invalid_min_customers_fails_first:
  "(isNaN (Number rt (Min_Customers env)) \<or> num_less (Number rt (Min_Customers env)) zero \<longrightarrow>
      control rt w env =
        ([ConsoleError ''Error in ETL process: Invalid minimum customers value''],
         Inl InvalidMinCustomers) \<and>
      fetched (fst (control rt w env)) = [] \<and> submitted (fst (control rt w env)) = []) \<and>
   (\<not> (isNaN (Number rt (Min_Customers env)) \<or> num_less (Number rt (Min_Customers env)) zero) \<longrightarrow>
      snd (control rt w env) \<noteq> Inl InvalidMinCustomers)"
  unfolding control_def Let_def fail_def invalid_min_def
  by (auto split: sum.splits option.splits dest: transform_Inl)

text \<open>The value \<^verbatim>\<open>-5\<close> is refused; the value \<^verbatim>\<open>0\<close> is accepted and the run succeeds.\<close>

theorem invalid_min_customers_fails_first_witness:
  "Number sample_runtime (Min_Customers env_negative) = Finite (- 5) \<and>
   num_less (Finite (- 5)) zero \<and>
   control sample_runtime world_ok env_negative =
     ([ConsoleError ''Error in ETL process: Invalid minimum customers value''],
      Inl InvalidMinCustomers) \<and>
   Number sample_runtime (Min_Customers env_default) = Finite 0 \<and>
   \<not> isNaN (Finite 0) \<and> \<not> num_less (Finite 0) zero \<and>
   snd (control sample_runtime world_ok env_default) \<noteq> Inl InvalidMinCustomers"
proof -
  have neg: "Number sample_runtime (Min_Customers env_negative) = Finite (- 5)"
    and np: "Number sample_runtime (Min_Customers env_default) = Finite 0"
    by (simp_all add: sample_runtime_def env_negative_def env_default_def)
  have bad: "num_less (Finite (- 5)) zero"
    and good: "\<not> isNaN (Finite 0)" "\<not> num_less (Finite 0) zero"
    by (simp_all add: zero_def isNaN_def)
  from invalid_min_customers_fails_first [of sample_runtime env_negative world_ok] neg bad
  have refused: "control sample_runtime world_ok env_negative =
     ([ConsoleError ''Error in ETL process: Invalid minimum customers value''],
      Inl InvalidMinCustomers)"
    by simp
  from invalid_min_customers_fails_first [of sample_runtime env_default world_ok] np good
  have accepted: "snd (control sample_runtime world_ok env_default) \<noteq> Inl InvalidMinCustomers"
    by simp
  from neg np bad good refused accepted show ?thesis by simp
qed

subsection \<open>The HTTP status\<close>

text \<open>
  Claim C5. With a valid configuration and a response from the API: when the response is
  not a success, the run throws the fetch error, which carries the status code and the
  status text, right after the fetch, and nothing is submitted; when the response is a
  success, the run never throws the fetch error.
\<close>

theorem failed_fetch_is_transport_error:
  assumes "\<not> invalid_min (Number rt (Min_Customers env))"
    and "fetch w (build_url rt env (Number rt (Min_Customers env))) = Inr res"
  shows "(\<not> ok res \<longrightarrow>
            control rt w env =
              ([ConsoleLog (''ok - Fetching power outages from '' @
                            build_url rt env (Number rt (Min_Customers env))),
                Fetch (build_url rt env (Number rt (Min_Customers env))),
                ConsoleError (''Error in ETL process: Failed to fetch data: '' @
                              status_text rt (response_status res) @ '' '' @ statusText res)],
               Inl (FetchFailed (response_status res) (statusText res))) \<and>
            submitted (fst (control rt w env)) = []) \<and>
         (ok res \<longrightarrow> (\<forall>st txt. snd (control rt w env) \<noteq> Inl (FetchFailed st txt)))"
  using assms unfolding control_def Let_def fail_def
  by (auto split: sum.splits option.splits dest: transform_Inl)

text \<open>The API answers 503 in one world and 200 in the other.\<close>

theorem failed_fetch_is_transport_error_witness:
  "\<not> invalid_min (Number sample_runtime (Min_Customers env_default)) \<and>
   control sample_runtime world_503 env_default =
     ([ConsoleLog ''ok - Fetching power outages from https://utils.tak.nz/power-outages/outages'',
       Fetch ''https://utils.tak.nz/power-outages/outages'',
       ConsoleError ''Error in ETL process: Failed to fetch data: 503 Service Unavailable''],
      Inl (FetchFailed 503 ''Service Unavailable'')) \<and>
   submitted (fst (control sample_runtime world_503 env_default)) = [] \<and>
   snd (control sample_runtime world_ok env_default) \<noteq> Inl (FetchFailed 200 ''OK'')"
proof -
  have valid: "\<not> invalid_min (Number sample_runtime (Min_Customers env_default))"
    by (simp add: sample_runtime_def env_default_def invalid_min_def isNaN_def zero_def)
  have url: "build_url sample_runtime env_default (Number sample_runtime (Min_Customers env_default)) =
      ''https://utils.tak.nz/power-outages/outages''"
    by (simp add: model_defs sample_runtime_def env_default_def)
  have down: "fetch world_503 (build_url sample_runtime env_default
        (Number sample_runtime (Min_Customers env_default))) =
      Inr \<lparr> ok = False, response_status = 503, statusText = ''Service Unavailable'',
            json = Inl ''Unexpected end of JSON input'' \<rparr>"
    by (simp add: world_503_def)
  have up: "fetch world_ok (build_url sample_runtime env_default
        (Number sample_runtime (Min_Customers env_default))) =
      Inr \<lparr> ok = True, response_status = 200, statusText = ''OK'', json = Inr small_report \<rparr>"
    by (simp add: world_ok_def)
  have code: "status_text sample_runtime 503 = ''503''"
    by (simp add: status_text_def sample_runtime_def)
  from failed_fetch_is_transport_error [OF valid down] url code
  have failed: "control sample_runtime world_503 env_default =
     ([ConsoleLog ''ok - Fetching power outages from https://utils.tak.nz/power-outages/outages'',
       Fetch ''https://utils.tak.nz/power-outages/outages'',
       ConsoleError ''Error in ETL process: Failed to fetch data: 503 Service Unavailable''],
      Inl (FetchFailed 503 ''Service Unavailable''))"
    and nothing: "submitted (fst (control sample_runtime world_503 env_default)) = []"
    by simp_all
  from failed_fetch_is_transport_error [OF valid up]
  have fine: "snd (control sample_runtime world_ok env_default) \<noteq> Inl (FetchFailed 200 ''OK'')"
    by simp
  from valid failed nothing fine show ?thesis by simp
qed

subsection \<open>The query string\<close>

text \<open>
  Claim C6, as the code has it. For a valid \<^verbatim>\<open>Min Customers\<close> value, the parameters of the
  request hold \<^verbatim>\<open>minCustomers\<close> exactly when the value is greater than zero, \<^verbatim>\<open>utility\<close>
  exactly when the utility filter is set and not empty, and \<^verbatim>\<open>outageType\<close> exactly when
  the outage type is set and not empty. The URL is the base URL alone when there is no
  parameter, and the base URL, a question mark and the serialised parameters otherwise;
  it is the one URL the run fetches.
\<close>

theorem query_parameters:
  assumes "\<not> invalid_min (Number rt (Min_Customers env))"
  shows "(''minCustomers'' \<in> fst ` set (build_params rt env (Number rt (Min_Customers env))) \<longleftrightarrow>
            num_less zero (Number rt (Min_Customers env))) \<and>
         (''utility'' \<in> fst ` set (build_params rt env (Number rt (Min_Customers env))) \<longleftrightarrow>
            truthy_opt (Utility_Filter env)) \<and>
         (''outageType'' \<in> fst ` set (build_params rt env (Number rt (Min_Customers env))) \<longleftrightarrow>
            truthy_opt (Outage_Type env)) \<and>
         build_url rt env (Number rt (Min_Customers env)) =
           (if build_params rt env (Number rt (Min_Customers env)) = [] then API_URL env
            else API_URL env @ ''?'' @
                 params_toString rt (build_params rt env (Number rt (Min_Customers env)))) \<and>
         fetched (fst (control rt w env)) = [build_url rt env (Number rt (Min_Customers env))]"
proof -
  let ?n = "Number rt (Min_Customers env)"
  have keys:
    "(''minCustomers'' \<in> fst ` set (build_params rt env ?n) \<longleftrightarrow> num_less zero ?n) \<and>
     (''utility'' \<in> fst ` set (build_params rt env ?n) \<longleftrightarrow> truthy_opt (Utility_Filter env)) \<and>
     (''outageType'' \<in> fst ` set (build_params rt env ?n) \<longleftrightarrow> truthy_opt (Outage_Type env))"
    by (auto simp: build_params_def truthy_opt_def split: option.splits if_splits)
  have url: "build_url rt env ?n =
           (if build_params rt env ?n = [] then API_URL env
            else API_URL env @ ''?'' @ params_toString rt (build_params rt env ?n))"
    by (simp add: build_url_def Let_def truthy_def params_toString_Nil)
  have "fetched (fst (control rt w env)) = [build_url rt env ?n]"
    using assms unfolding control_def Let_def fail_def
    by (auto split: sum.splits option.splits)
  with keys url show ?thesis by blast
qed

text \<open>A configuration with all three filters set.\<close>

theorem query_parameters_witness:
  "\<not> invalid_min (Number sample_runtime (Min_Customers env_filtered)) \<and>
   num_less zero (Number sample_runtime (Min_Customers env_filtered)) \<and>
   Utility_Filter env_filtered = Some ''ORION_NZ'' \<and>
   Outage_Type env_filtered = Some ''unplanned'' \<and>
   ''minCustomers'' \<in> fst ` set (build_params sample_runtime env_filtered
      (Number sample_runtime (Min_Customers env_filtered))) \<and>
   ''utility'' \<in> fst ` set (build_params sample_runtime env_filtered
      (Number sample_runtime (Min_Customers env_filtered))) \<and>
   ''outageType'' \<in> fst ` set (build_params sample_runtime env_filtered
      (Number sample_runtime (Min_Customers env_filtered))) \<and>
   fetched (fst (control sample_runtime world_ok env_filtered)) =
     [''https://utils.tak.nz/power-outages/outages?minCustomers=100&utility=ORION_NZ&outageType=unplanned'']"
proof -
  have valid: "\<not> invalid_min (Number sample_runtime (Min_Customers env_filtered))"
    and positive: "num_less zero (Number sample_runtime (Min_Customers env_filtered))"
    and filters: "Utility_Filter env_filtered = Some ''ORION_NZ''"
      "Outage_Type env_filtered = Some ''unplanned''"
    by (simp_all add: sample_runtime_def env_filtered_def env_default_def invalid_min_def
          isNaN_def zero_def)
  have nonempty: "truthy_opt (Utility_Filter env_filtered)" "truthy_opt (Outage_Type env_filtered)"
    using filters by (simp_all add: truthy_opt_def truthy_def)
  have url: "build_url sample_runtime env_filtered
        (Number sample_runtime (Min_Customers env_filtered)) =
      ''https://utils.tak.nz/power-outages/outages?minCustomers=100&utility=ORION_NZ&outageType=unplanned''"
    by (simp add: model_defs sample_runtime_def env_filtered_def env_default_def)
  from query_parameters [OF valid, of world_ok] positive nonempty url
  have "''minCustomers'' \<in> fst ` set (build_params sample_runtime env_filtered
          (Number sample_runtime (Min_Customers env_filtered)))"
    and "''utility'' \<in> fst ` set (build_params sample_runtime env_filtered
          (Number sample_runtime (Min_Customers env_filtered)))"
    and "''outageType'' \<in> fst ` set (build_params sample_runtime env_filtered
          (Number sample_runtime (Min_Customers env_filtered)))"
    and "fetched (fst (control sample_runtime world_ok env_filtered)) =
     [''https://utils.tak.nz/power-outages/outages?minCustomers=100&utility=ORION_NZ&outageType=unplanned'']"
    by simp_all
  with valid positive filters show ?thesis by simp
qed

text \<open>
  The claim as written appends \<^verbatim>\<open>utility\<close> whenever the filter is set. Here the filter is
  set to the empty string, no parameter is built and the base URL is fetched as it is.
\<close>

theorem query_parameters_set_counterexample:
  "Utility_Filter env_blank_filter = Some [] \<and>
   build_params sample_runtime env_blank_filter
     (Number sample_runtime (Min_Customers env_blank_filter)) = [] \<and>
   ''utility'' \<notin> fst ` set (build_params sample_runtime env_blank_filter
     (Number sample_runtime (Min_Customers env_blank_filter))) \<and>
   fetched (fst (control sample_runtime world_ok env_blank_filter)) =
     [''https://utils.tak.nz/power-outages/outages'']"
  by (simp add: model_defs sample_defs)

subsection \<open>No threshold in the transformer\<close>

text \<open>
  Claim C2, as the code has it. The loop applies no threshold of its own: a run that
  succeeds submits one collection, with one feature for every outage of the report, in
  the order of the report, whatever the number of customers affected. The threshold
  reaches the API through the query string only.
\<close>

theorem control_submits_every_outage:
  assumes "control rt w env = (tr, Inr ())"
  shows "\<exists>res body fs.
           fetch w (build_url rt env (Number rt (Min_Customers env))) = Inr res \<and>
           json res = Inr body \<and>
           submitted tr = [\<lparr> collection_type = ''FeatureCollection'', features = fs \<rparr>] \<and>
           map (properties_metadata \<circ> properties) fs = outages body"
  using assms unfolding control_def Let_def fail_def
  by (auto split: if_splits sum.splits option.splits dest: transform_metadata)

text \<open>A successful run on the small report.\<close>

theorem control_submits_every_outage_witness:
  "snd (control sample_runtime world_ok env_default) = Inr () \<and>
   submitted (fst (control sample_runtime world_ok env_default)) =
     [\<lparr> collection_type = ''FeatureCollection'', features = [small_feature] \<rparr>] \<and>
   map (properties_metadata \<circ> properties) [small_feature] = outages small_report"
proof -
  from control_submits_every_outage [OF control_ok_default]
  obtain res body fs where
    "fetch world_ok (build_url sample_runtime env_default
        (Number sample_runtime (Min_Customers env_default))) = Inr res"
    and "json res = Inr body"
    and "[\<lparr> collection_type = ''FeatureCollection'', features = [small_feature] \<rparr>] =
         [\<lparr> collection_type = ''FeatureCollection'', features = fs \<rparr>]"
    and "map (properties_metadata \<circ> properties) fs = outages body"
    by auto
  then have "map (properties_metadata \<circ> properties) [small_feature] = outages small_report"
    by (auto simp: world_ok_def)
  then show ?thesis by (simp add: control_ok_default)
qed

text \<open>
  The claim as written keeps only the outages at or above the configured minimum. Here
  the minimum is 100, the report holds one outage of 5 customers, and its feature is
  submitted.
\<close>

theorem threshold_counterexample:
  "Number sample_runtime (Min_Customers env_filtered) = Finite 100 \<and>
   outages small_report = [small_outage] \<and>
   customersAffected small_outage = Finite 5 \<and>
   num_less (Finite 5) (Finite 100) \<and>
   snd (control sample_runtime world_ok env_filtered) = Inr () \<and>
   submitted (fst (control sample_runtime world_ok env_filtered)) =
     [\<lparr> collection_type = ''FeatureCollection'', features = [small_feature] \<rparr>] \<and>
   properties_metadata (properties small_feature) = small_outage"
  by (simp add: control_ok_filtered)
     (simp add: sample_runtime_def env_filtered_def env_default_def small_report_def
        small_outage_def small_feature_def feature_of_def)

subsection \<open>Empty strings\<close>

text \<open>
  Claim C10. An optional string that is present and empty is treated as an absent one.
  With an empty estimated restoration, \<^verbatim>\<open>stale\<close> is the clock reading plus one hour, the
  remarks are those of the record without the field, and no line starts with
  \<^verbatim>\<open>Estimated Restoration: \<close>. In the same way an empty outage type, crew status, feeder
  or aggregation type leaves the remarks as they are without the field, with no line
  of its label.
\<close>

theorem empty_string_is_absent:
  "(estimatedRestoration outage = Some [] \<longrightarrow>
      stale_of rt now outage = Date_toISOString rt (new_Date (now + 3600000)) \<and>
      (to_feature rt now outage = Inr f \<longrightarrow>
         stale (properties f) = toISOString rt (now + 3600000)) \<and>
      remark_lines rt outage = remark_lines rt (outage \<lparr> estimatedRestoration := None \<rparr>) \<and>
      filter (prefix ''Estimated Restoration: '') (remark_lines rt outage) = []) \<and>
   (outageType outage = Some [] \<longrightarrow>
      remark_lines rt outage = remark_lines rt (outage \<lparr> outageType := None \<rparr>) \<and>
      filter (prefix ''Type: '') (remark_lines rt outage) = []) \<and>
   (crewStatus outage = Some [] \<longrightarrow>
      remark_lines rt outage = remark_lines rt (outage \<lparr> crewStatus := None \<rparr>) \<and>
      filter (prefix ''Crew Status: '') (remark_lines rt outage) = []) \<and>
   (\<forall>m. metadata outage = Some m \<and> feeder m = Some [] \<longrightarrow>
      remark_lines rt outage =
        remark_lines rt (outage \<lparr> metadata := Some (m \<lparr> feeder := None \<rparr>) \<rparr>) \<and>
      filter (prefix ''Feeder: '') (remark_lines rt outage) = []) \<and>
   (\<forall>m. metadata outage = Some m \<and> aggregationType m = Some [] \<longrightarrow>
      remark_lines rt outage =
        remark_lines rt (outage \<lparr> metadata := Some (m \<lparr> aggregationType := None \<rparr>) \<rparr>) \<and>
      filter (prefix ''Aggregated: '') (remark_lines rt outage) = [])"
proof (intro conjI impI allI)
  assume blank: "estimatedRestoration outage = Some []"
  then show "stale_of rt now outage = Date_toISOString rt (new_Date (now + 3600000))"
    by (simp add: stale_of_def truthy_def)
  from blank show "stale (properties f) = toISOString rt (now + 3600000)"
    if "to_feature rt now outage = Inr f"
    using that
    by (elim to_feature_Inr)
       (auto simp: stale_of_def truthy_def Date_toISOString_def new_Date_def split: if_splits)
  from blank show
    "remark_lines rt outage = remark_lines rt (outage \<lparr> estimatedRestoration := None \<rparr>)"
    by (simp add: remark_lines_def areas_text_def truthy_def)
  from blank show "filter (prefix ''Estimated Restoration: '') (remark_lines rt outage) = []"
    by (simp add: remark_lines_def truthy_def truthy_opt_def split: option.splits)
next
  assume blank: "outageType outage = Some []"
  then show "remark_lines rt outage = remark_lines rt (outage \<lparr> outageType := None \<rparr>)"
    by (simp add: remark_lines_def areas_text_def truthy_def)
  from blank show "filter (prefix ''Type: '') (remark_lines rt outage) = []"
    by (simp add: remark_lines_def truthy_def truthy_opt_def split: option.splits)
next
  assume blank: "crewStatus outage = Some []"
  then show "remark_lines rt outage = remark_lines rt (outage \<lparr> crewStatus := None \<rparr>)"
    by (simp add: remark_lines_def areas_text_def truthy_def)
  from blank show "filter (prefix ''Crew Status: '') (remark_lines rt outage) = []"
    by (simp add: remark_lines_def truthy_def truthy_opt_def split: option.splits)
next
  fix m
  assume blank: "metadata outage = Some m \<and> feeder m = Some []"
  then show "remark_lines rt outage =
      remark_lines rt (outage \<lparr> metadata := Some (m \<lparr> feeder := None \<rparr>) \<rparr>)"
    by (simp add: remark_lines_def areas_text_def truthy_def outageCount_text_def)
  from blank show "filter (prefix ''Feeder: '') (remark_lines rt outage) = []"
    by (simp add: remark_lines_def truthy_def truthy_opt_def split: option.splits)
next
  fix m
  assume blank: "metadata outage = Some m \<and> aggregationType m = Some []"
  then show "remark_lines rt outage =
      remark_lines rt (outage \<lparr> metadata := Some (m \<lparr> aggregationType := None \<rparr>) \<rparr>)"
    by (simp add: remark_lines_def areas_text_def truthy_def truthy_opt_def outageCount_text_def)
  from blank show "filter (prefix ''Aggregated: '') (remark_lines rt outage) = []"
    by (simp add: remark_lines_def truthy_def truthy_opt_def split: option.splits)
qed

text \<open>The outage whose five optional strings are all present and empty.\<close>

theorem empty_string_is_absent_witness:
  "estimatedRestoration blank_outage = Some [] \<and>
   outageType blank_outage = Some [] \<and>
   crewStatus blank_outage = Some [] \<and>
   map_option feeder (metadata blank_outage) = Some (Some []) \<and>
   map_option aggregationType (metadata blank_outage) = Some (Some []) \<and>
   stale_of sample_runtime 1736935200000 blank_outage =
     Inr (toISOString sample_runtime (1736935200000 + 3600000)) \<and>
   filter (prefix ''Estimated Restoration: '') (remark_lines sample_runtime blank_outage) = [] \<and>
   filter (prefix ''Type: '') (remark_lines sample_runtime blank_outage) = [] \<and>
   filter (prefix ''Crew Status: '') (remark_lines sample_runtime blank_outage) = [] \<and>
   filter (prefix ''Feeder: '') (remark_lines sample_runtime blank_outage) = [] \<and>
   filter (prefix ''Aggregated: '') (remark_lines sample_runtime blank_outage) = [] \<and>
   remark_lines sample_runtime blank_outage =
     [''Utility: Orion Group'', ''Customers Affected: 500'', ''Status: active'',
      ''Cause: Fault'', ''Region: Canterbury'', ''Areas: Ponsonby'',
      ''Streets: High St, Low St'', ''Outage Start: 15/01/2025, 11:00:00 pm NZT'']"
proof -
  have blank:
    "estimatedRestoration blank_outage = Some []"
    "outageType blank_outage = Some []"
    "crewStatus blank_outage = Some []"
    "metadata blank_outage =
       Some \<lparr> feeder = Some [], lastUpdate = None, aggregationType = Some [],
              outageCount = Some (Finite 3) \<rparr>"
    by (simp_all add: blank_outage_def)
  note absent = empty_string_is_absent [of blank_outage sample_runtime 1736935200000 full_feature]
  from absent blank(1)
  have stale: "stale_of sample_runtime 1736935200000 blank_outage =
      Date_toISOString sample_runtime (new_Date (1736935200000 + 3600000))"
    and restoration:
      "filter (prefix ''Estimated Restoration: '') (remark_lines sample_runtime blank_outage) = []"
    by blast+
  from absent blank(2)
  have type: "filter (prefix ''Type: '') (remark_lines sample_runtime blank_outage) = []"
    by blast
  from absent blank(3)
  have crew: "filter (prefix ''Crew Status: '') (remark_lines sample_runtime blank_outage) = []"
    by blast
  have fields:
    "feeder \<lparr> feeder = Some [], lastUpdate = None, aggregationType = Some [],
             outageCount = Some (Finite 3) \<rparr> = Some []"
    "aggregationType \<lparr> feeder = Some [], lastUpdate = None, aggregationType = Some [],
                      outageCount = Some (Finite 3) \<rparr> = Some []"
    by simp_all
  from absent blank(4) fields
  have feeder: "filter (prefix ''Feeder: '') (remark_lines sample_runtime blank_outage) = []"
    and aggregated:
      "filter (prefix ''Aggregated: '') (remark_lines sample_runtime blank_outage) = []"
    by blast+
  have lines: "remark_lines sample_runtime blank_outage =
     [''Utility: Orion Group'', ''Customers Affected: 500'', ''Status: active'',
      ''Cause: Fault'', ''Region: Canterbury'', ''Areas: Ponsonby'',
      ''Streets: High St, Low St'', ''Outage Start: 15/01/2025, 11:00:00 pm NZT'']"
    by (simp add: model_defs sample_defs)
  from stale have stale': "stale_of sample_runtime 1736935200000 blank_outage =
     Inr (toISOString sample_runtime (1736935200000 + 3600000))"
    by (simp add: Date_toISOString_def new_Date_def)
  from blank stale' restoration type crew feeder aggregated lines
  show ?thesis by (simp del: filter.simps)
qed

end
